theory Spec2Isabelle
  imports Complex_Main
begin

section \<open>Values, errors and insertion-ordered maps\<close>

text \<open>
  The engine passes values of TypeScript type \<open>unknown\<close> around. They are modelled as a
  tagged JavaScript value. Numbers are exact reals (the rounding of IEEE doubles is not
  modelled), an object is the list of its own properties in enumeration order, and a
  function value is opaque.
\<close>

datatype jsvalue =
    VUndefined
  | VNull
  | VBool bool
  | VNum real
  | VStr string
  | VArray "jsvalue list"
  | VObject "(string \<times> jsvalue) list"
  | VFunction

text \<open>
  The error classes of \<open>core/errors.ts\<close>. The message texts of the source are Chinese
  literals; the model keeps one ASCII rendering per literal.
\<close>

datatype jserror =
    Error string
  | StepExecutionError string string "jserror option"
  | HookExecutionError string string string jserror
  | ToolNotFoundError string
  | SchemaValidationError string "string list"
  | TimeoutError string string real
  | ToolExecutionError string string "string option"
  | CyclicDependencyError "string list"

fun message :: "jserror \<Rightarrow> string" where
  "message (Error m) = m"
| "message (StepExecutionError m sid cause) = m"
| "message (HookExecutionError hid phase sid cause) = ''Hook execution failed: '' @ hid"
| "message (ToolNotFoundError tid) = ''tool not registered: '' @ tid"
| "message (SchemaValidationError m errs) = m"
| "message (TimeoutError m sid ms) = m"
| "message (ToolExecutionError tid m sid) = m"
| "message (CyclicDependencyError cyc) = ''cyclic dependency detected''"

text \<open>
  A JavaScript \<open>Map\<close> iterates in insertion order, and \<open>set\<close> on a key that is already
  present keeps the key's position. It is modelled as an association list.
\<close>

type_synonym ('k, 'v) jsmap = "('k \<times> 'v) list"

definition Map_get :: "('k, 'v) jsmap \<Rightarrow> 'k \<Rightarrow> 'v option" where
  "Map_get m k = map_of m k"

definition Map_has :: "('k, 'v) jsmap \<Rightarrow> 'k \<Rightarrow> bool" where
  "Map_has m k = (map_of m k \<noteq> None)"

fun Map_set :: "('k, 'v) jsmap \<Rightarrow> 'k \<Rightarrow> 'v \<Rightarrow> ('k, 'v) jsmap" where
  "Map_set [] k v = [(k, v)]"
| "Map_set ((k', v') # m) k v = (if k' = k then (k, v) # m else (k', v') # Map_set m k v)"

definition Map_delete :: "('k, 'v) jsmap \<Rightarrow> 'k \<Rightarrow> ('k, 'v) jsmap" where
  "Map_delete m k = filter (\<lambda>p. fst p \<noteq> k) m"

definition Map_keys :: "('k, 'v) jsmap \<Rightarrow> 'k list" where
  "Map_keys m = map fst m"


section \<open>Core types\<close>

datatype StepStatus = PENDING | RUNNING | WAITING_INPUT | SUCCESS | FAILED | SKIPPED

record RetryPolicy =
  maxRetries :: nat
  retryInterval :: real
  exponentialBackoff :: "bool option"
  backoffMultiplier :: "real option"

record Context =
  stepOutputs :: "string \<rightharpoonup> jsvalue"
  globals :: "string \<rightharpoonup> jsvalue"

definition setStepOutput :: "Context \<Rightarrow> string \<Rightarrow> jsvalue \<Rightarrow> Context" where
  "setStepOutput ctx sid v = ctx\<lparr>stepOutputs := (stepOutputs ctx)(sid \<mapsto> v)\<rparr>"

text \<open>
  What a callback does when it is called: it returns a value or throws. A thrown value that
  is not an \<open>Error\<close> object is kept as its \<open>String(...)\<close> rendering, which is all the engine
  reads from it.
\<close>

datatype thrown = ThrownError jserror | ThrownOther string

text \<open>
  A skip condition is a callback over the context, or an expression string that the source
  compiles with \<open>new Function\<close>; the expression is represented by what evaluating it gives.
\<close>

datatype SkipCondition =
    CondFn "Context \<Rightarrow> thrown + bool"
  | CondExpr "Context \<Rightarrow> thrown + bool"

record SkipPolicy =
  condition :: SkipCondition
  defaultOutput :: "jsvalue option"

text \<open>
  A hook handler receives the hook context. The model gives it the current step input and
  the step output (present for after-hooks only); it throws, or returns after possibly
  calling \<open>modifyInput\<close> (the last value it passed, if any).
\<close>

record HookHandler =
  hook_id :: string
  hook_name :: string
  handler :: "jsvalue \<Rightarrow> jsvalue option \<Rightarrow> thrown + jsvalue option"

record HookDefinition =
  beforeHooks :: "HookHandler list option"
  afterHooks :: "HookHandler list option"

record StepDefinition =
  id' :: string
  name' :: string
  type' :: string
  dependencies :: "string list option"
  retryPolicy :: "RetryPolicy option"
  skipPolicy :: "SkipPolicy option"
  hooks :: "HookDefinition option"

record WorkflowDefinition =
  wf_id :: string
  wf_name :: string
  steps :: "StepDefinition list"


section \<open>Scheduler: DAG construction and the ready frontier\<close>

record DAGNode =
  step :: StepDefinition
  inDegree :: int
  outDegree :: int

record DAG =
  nodes :: "(string, DAGNode) jsmap"
  edges :: "(string, string list) jsmap"

text \<open>\<open>step.dependencies || []\<close>\<close>

definition deps_or_empty :: "StepDefinition \<Rightarrow> string list" where
  "deps_or_empty s = (case dependencies s of None \<Rightarrow> [] | Some ds \<Rightarrow> ds)"

text \<open>First loop of \<open>DAGBuilder.build\<close>: one node and one edge entry per step.\<close>

fun build_create :: "StepDefinition list \<Rightarrow> DAG \<Rightarrow> DAG" where
  "build_create [] dag = dag"
| "build_create (s # ss) dag =
     build_create ss
       \<lparr>nodes = Map_set (nodes dag) (id' s) \<lparr>step = s, inDegree = 0, outDegree = 0\<rparr>,
        edges = Map_set (edges dag) (id' s) (deps_or_empty s)\<rparr>"

text \<open>The inner loop of the second pass: \<open>depNode.outDegree++\<close> for each known dependency.\<close>

fun build_outdeg :: "string list \<Rightarrow> (string, DAGNode) jsmap \<Rightarrow> (string, DAGNode) jsmap" where
  "build_outdeg [] ns = ns"
| "build_outdeg (d # ds) ns =
     (case Map_get ns d of
        None \<Rightarrow> build_outdeg ds ns
      | Some depNode \<Rightarrow> build_outdeg ds (Map_set ns d (depNode\<lparr>outDegree := outDegree depNode + 1\<rparr>)))"

text \<open>
  Second loop of \<open>build\<close>. \<open>nodes.get(step.id)!\<close> is always present after the first loop;
  the absent case (a \<open>TypeError\<close> in the source) leaves the map alone here and is shown
  unreachable by \<open>build\<close>'s lemmas.
\<close>

fun build_degrees :: "StepDefinition list \<Rightarrow> (string, DAGNode) jsmap \<Rightarrow> (string, DAGNode) jsmap" where
  "build_degrees [] ns = ns"
| "build_degrees (s # ss) ns =
     (let deps = deps_or_empty s;
          ns1 = (case Map_get ns (id' s) of
                   None \<Rightarrow> ns
                 | Some node \<Rightarrow> Map_set ns (id' s) (node\<lparr>inDegree := int (length deps)\<rparr>))
      in build_degrees ss (build_outdeg deps ns1))"

definition build :: "WorkflowDefinition \<Rightarrow> DAG" where
  "build definition' =
     (let dag0 = build_create (steps definition') \<lparr>nodes = [], edges = []\<rparr>
      in \<lparr>nodes = build_degrees (steps definition') (nodes dag0), edges = edges dag0\<rparr>)"

text \<open>\<open>Scheduler.parse\<close> delegates to the builder.\<close>

definition parse :: "WorkflowDefinition \<Rightarrow> DAG" where
  "parse definition' = build definition'"

text \<open>\<open>DAGBuilder.getReadySteps\<close>: the loop over \<open>dag.nodes\<close>, pushing onto \<open>ready\<close>.\<close>

fun getReadySteps_loop ::
  "DAG \<Rightarrow> string set \<Rightarrow> (string, DAGNode) jsmap \<Rightarrow> StepDefinition list \<Rightarrow> StepDefinition list" where
  "getReadySteps_loop dag completedSteps [] ready = ready"
| "getReadySteps_loop dag completedSteps ((i, node) # rest) ready =
     (if i \<in> completedSteps then getReadySteps_loop dag completedSteps rest ready
      else
        let deps = (case Map_get (edges dag) i of None \<Rightarrow> [] | Some ds \<Rightarrow> ds);
            allDepsCompleted = list_all (\<lambda>depId. depId \<in> completedSteps) deps
        in if allDepsCompleted
           then getReadySteps_loop dag completedSteps rest (ready @ [step node])
           else getReadySteps_loop dag completedSteps rest ready)"

definition getReadySteps :: "DAG \<Rightarrow> string set \<Rightarrow> StepDefinition list" where
  "getReadySteps dag completedSteps = getReadySteps_loop dag completedSteps (nodes dag) []"

text \<open>The dependency list the scheduler reads for a node key.\<close>

definition deps_of :: "DAG \<Rightarrow> string \<Rightarrow> string list" where
  "deps_of dag i = (case Map_get (edges dag) i of None \<Rightarrow> [] | Some ds \<Rightarrow> ds)"

text \<open>The ready frontier as the specification words it, over the node entries of the DAG.\<close>

definition ready_spec :: "DAG \<Rightarrow> string set \<Rightarrow> (string \<times> DAGNode) \<Rightarrow> bool" where
  "ready_spec dag C p = (fst p \<notin> C \<and> set (deps_of dag (fst p)) \<subseteq> C)"


text \<open>A diamond: \<open>B\<close> and \<open>C\<close> depend on \<open>A\<close>, and \<open>D\<close> on both.\<close>

definition mk_step :: "string \<Rightarrow> string list option \<Rightarrow> StepDefinition" where
  "mk_step i ds = \<lparr>id' = i, name' = i, type' = ''task'', dependencies = ds,
     retryPolicy = None, skipPolicy = None, hooks = None\<rparr>"

definition diamond :: WorkflowDefinition where
  "diamond = \<lparr>wf_id = ''w'', wf_name = ''w'',
     steps = [mk_step ''A'' None, mk_step ''B'' (Some [''A'']), mk_step ''C'' (Some [''A'']),
              mk_step ''D'' (Some [''B'', ''C''])]\<rparr>"


section \<open>Event bus\<close>

datatype EventType =
    WORKFLOW_START | WORKFLOW_COMPLETE | WORKFLOW_FAILED
  | STEP_START | STEP_COMPLETE | STEP_FAILED | STEP_RETRY | STEP_SKIP
  | PROGRESS_UPDATE | STEP_BAR_UPDATE
  | UI_RENDER | UI_RESPONSE
  | TOOL_INVOKE | TOOL_COMPLETE | TOOL_FAILED
  | WAIT_START | WAIT_TIMEOUT | WAIT_RESUME | WAIT_CANCEL

text \<open>
  \<open>WorkflowEvent\<close>. The \<open>timestamp\<close> field (\<open>Date.now()\<close>) is left out: no operation of
  the engine reads it back.
\<close>

record WorkflowEvent =
  ev_type :: EventType
  workflowId :: string
  instanceId :: string
  ev_stepId :: "string option"
  payload :: jsvalue

definition createWorkflowEvent ::
  "EventType \<Rightarrow> string \<Rightarrow> string \<Rightarrow> jsvalue \<Rightarrow> string option \<Rightarrow> WorkflowEvent" where
  "createWorkflowEvent t wid iid p sid =
     \<lparr>ev_type = t, workflowId = wid, instanceId = iid, ev_stepId = sid, payload = p\<rparr>"















section \<open>Executor: retry strategy, skip strategy, hooks and step execution\<close>

subsection \<open>RetryStrategy\<close>

record RetryStrategy =
  policy :: RetryPolicy
  currentRetryCount :: nat

definition new_RetryStrategy :: "RetryPolicy \<Rightarrow> RetryStrategy" where
  "new_RetryStrategy pol = \<lparr>policy = pol, currentRetryCount = 0\<rparr>"

definition canRetry :: "RetryStrategy \<Rightarrow> bool" where
  "canRetry rs = (currentRetryCount rs < maxRetries (policy rs))"

definition getRetryCount :: "RetryStrategy \<Rightarrow> nat" where
  "getRetryCount rs = currentRetryCount rs"

definition getMaxRetries :: "RetryStrategy \<Rightarrow> nat" where
  "getMaxRetries rs = maxRetries (policy rs)"

definition getNextRetryInterval :: "RetryStrategy \<Rightarrow> real" where
  "getNextRetryInterval rs =
     (let baseInterval = retryInterval (policy rs)
      in if exponentialBackoff (policy rs) \<noteq> Some True then baseInterval
         else
           let multiplier = (case backoffMultiplier (policy rs) of None \<Rightarrow> 2 | Some m \<Rightarrow> m);
               exponent = currentRetryCount rs
           in baseInterval * multiplier ^ exponent)"

definition recordRetry :: "RetryStrategy \<Rightarrow> RetryStrategy" where
  "recordRetry rs = rs\<lparr>currentRetryCount := currentRetryCount rs + 1\<rparr>"

subsection \<open>SkipStrategy\<close>

text \<open>
  A callback condition is called directly (its exception propagates); an expression is
  evaluated inside \<open>try\<close>/\<open>catch\<close>, and a failed evaluation means do not skip.
\<close>

definition shouldSkip :: "SkipPolicy \<Rightarrow> Context \<Rightarrow> thrown + bool" where
  "shouldSkip pol ctx =
     (case condition pol of
        CondFn f \<Rightarrow> f ctx
      | CondExpr e \<Rightarrow> (case e ctx of Inl t \<Rightarrow> Inr False | Inr b \<Rightarrow> Inr b))"

definition getDefaultOutput :: "SkipPolicy \<Rightarrow> jsvalue" where
  "getDefaultOutput pol = (case defaultOutput pol of None \<Rightarrow> VUndefined | Some v \<Rightarrow> v)"

subsection \<open>Observable actions and the environment of a step\<close>

text \<open>
  The executor is asynchronous. What it does is recorded as a trace of actions: the events
  it hands to the event emitter, the calls of the step body and of hooks, the sleeps between
  attempts and its writes to the context. The event emitter is represented by that log
  (the model of \<open>emit\<close> itself is above).
\<close>

datatype action =
    Emit WorkflowEvent
  | BodyCall nat jsvalue
  | Sleep real
  | BeforeHookCall string
  | AfterHookCall string
  | SetStepOutput string jsvalue

text \<open>
  While the executor awaits, other tasks run and may call \<open>cancelStep\<close> or
  \<open>clearCancellation\<close>. The environment gives, for each await, what happens to the
  cancellation set meanwhile, and the outcome of each call of the step body (numbered
  from 1, with the input and context it receives).
\<close>

datatype await_point = AwaitBody nat | AwaitSleep nat | AwaitBeforeHook string | AwaitAfterHook string

record Env =
  body :: "nat \<Rightarrow> jsvalue \<Rightarrow> Context \<Rightarrow> thrown + jsvalue"
  meanwhile :: "await_point \<Rightarrow> string set \<Rightarrow> string set"

record HookManager =
  globalBeforeHooks :: "HookHandler list"
  globalAfterHooks :: "HookHandler list"

record Executor =
  hookManager :: HookManager
  ex_workflowId :: string
  ex_instanceId :: string

record ExecState =
  cancelledSteps :: "string set"
  ctx :: Context
  trace :: "action list"
  calls :: nat

record StepResult =
  stepId :: string
  status :: StepStatus
  output' :: "jsvalue option"
  error :: "jserror option"
  retryCount :: "nat option"

definition cancelStep :: "ExecState \<Rightarrow> string \<Rightarrow> ExecState" where
  "cancelStep st sid = st\<lparr>cancelledSteps := insert sid (cancelledSteps st)\<rparr>"

definition isCancelled :: "ExecState \<Rightarrow> string \<Rightarrow> bool" where
  "isCancelled st sid = (sid \<in> cancelledSteps st)"

definition clearCancellation :: "ExecState \<Rightarrow> string \<Rightarrow> ExecState" where
  "clearCancellation st sid = st\<lparr>cancelledSteps := cancelledSteps st - {sid}\<rparr>"

definition msg_cancelled :: string where
  "msg_cancelled = ''step has been cancelled''"

definition await :: "Env \<Rightarrow> await_point \<Rightarrow> ExecState \<Rightarrow> ExecState" where
  "await env p st = st\<lparr>cancelledSteps := meanwhile env p (cancelledSteps st)\<rparr>"

definition log :: "action \<Rightarrow> ExecState \<Rightarrow> ExecState" where
  "log a st = st\<lparr>trace := trace st @ [a]\<rparr>"

definition emitEvent :: "Executor \<Rightarrow> EventType \<Rightarrow> string \<Rightarrow> jsvalue \<Rightarrow> ExecState \<Rightarrow> ExecState" where
  "emitEvent ex t sid p st =
     log (Emit (createWorkflowEvent t (ex_workflowId ex) (ex_instanceId ex) p (Some sid))) st"

definition opt_value :: "jsvalue option \<Rightarrow> jsvalue" where
  "opt_value v = (case v of None \<Rightarrow> VUndefined | Some x \<Rightarrow> x)"

text \<open>\<open>lastError?.message\<close>\<close>

definition opt_message :: "jserror option \<Rightarrow> jsvalue" where
  "opt_message e = (case e of None \<Rightarrow> VUndefined | Some x \<Rightarrow> VStr (message x))"

subsection \<open>HookManager\<close>

record HookExecutionResult =
  success :: bool
  modifiedInput :: "jsvalue option"
  hook_error :: "jserror option"

definition as_Error :: "thrown \<Rightarrow> jserror" where
  "as_Error t = (case t of ThrownError e \<Rightarrow> e | ThrownOther s \<Rightarrow> Error s)"

text \<open>
  The loop of \<open>executeBeforeHooks\<close>; \<open>cur\<close> and \<open>modified\<close> are the hook context's
  \<open>_stepInput\<close> and \<open>_inputModified\<close>.
\<close>

fun before_loop ::
  "Env \<Rightarrow> string \<Rightarrow> HookHandler list \<Rightarrow> jsvalue \<Rightarrow> bool \<Rightarrow> ExecState
     \<Rightarrow> (jserror + jsvalue \<times> bool) \<times> ExecState" where
  "before_loop env sid [] cur modified st = (Inr (cur, modified), st)"
| "before_loop env sid (h # hs) cur modified st =
     (let st1 = await env (AwaitBeforeHook (hook_id h)) (log (BeforeHookCall (hook_id h)) st)
      in case handler h cur None of
           Inl t \<Rightarrow> (Inl (HookExecutionError (hook_id h) ''before'' sid (as_Error t)), st1)
         | Inr None \<Rightarrow> before_loop env sid hs cur modified st1
         | Inr (Some v) \<Rightarrow> before_loop env sid hs v True st1)"

definition executeBeforeHooks ::
  "Env \<Rightarrow> HookManager \<Rightarrow> string \<Rightarrow> jsvalue \<Rightarrow> HookDefinition option \<Rightarrow> ExecState
     \<Rightarrow> HookExecutionResult \<times> ExecState" where
  "executeBeforeHooks env hm sid stepInput stepHooks st =
     (let hooksToExecute = globalBeforeHooks hm @
            (case stepHooks of None \<Rightarrow> []
             | Some hdef \<Rightarrow> (case beforeHooks hdef of None \<Rightarrow> [] | Some hs \<Rightarrow> hs))
      in case before_loop env sid hooksToExecute stepInput False st of
           (Inl e, st1) \<Rightarrow> (\<lparr>success = False, modifiedInput = None, hook_error = Some e\<rparr>, st1)
         | (Inr (cur, modified), st1) \<Rightarrow>
             (\<lparr>success = True, modifiedInput = Some (if modified then cur else stepInput),
               hook_error = None\<rparr>, st1))"

text \<open>The loop of \<open>executeAfterHooks\<close>: a failing hook is recorded and the loop goes on.\<close>

fun after_loop ::
  "Env \<Rightarrow> string \<Rightarrow> HookHandler list \<Rightarrow> jsvalue \<Rightarrow> jsvalue \<Rightarrow> jserror list \<Rightarrow> ExecState
     \<Rightarrow> jserror list \<times> ExecState" where
  "after_loop env sid [] cur out errors st = (errors, st)"
| "after_loop env sid (h # hs) cur out errors st =
     (let st1 = await env (AwaitAfterHook (hook_id h)) (log (AfterHookCall (hook_id h)) st)
      in case handler h cur (Some out) of
           Inl t \<Rightarrow> after_loop env sid hs cur out
                      (errors @ [HookExecutionError (hook_id h) ''after'' sid (as_Error t)]) st1
         | Inr None \<Rightarrow> after_loop env sid hs cur out errors st1
         | Inr (Some v) \<Rightarrow> after_loop env sid hs v out errors st1)"

definition executeAfterHooks ::
  "Env \<Rightarrow> HookManager \<Rightarrow> string \<Rightarrow> jsvalue \<Rightarrow> jsvalue \<Rightarrow> HookDefinition option \<Rightarrow> ExecState
     \<Rightarrow> HookExecutionResult \<times> ExecState" where
  "executeAfterHooks env hm sid stepInput stepOutput stepHooks st =
     (let hooksToExecute =
            (case stepHooks of None \<Rightarrow> []
             | Some hdef \<Rightarrow> (case afterHooks hdef of None \<Rightarrow> [] | Some hs \<Rightarrow> hs))
            @ globalAfterHooks hm
      in case after_loop env sid hooksToExecute stepInput stepOutput [] st of
           (errors, st1) \<Rightarrow>
             (\<lparr>success = True, modifiedInput = None,
               hook_error = (case errors of [] \<Rightarrow> None | e # es \<Rightarrow> Some e)\<rparr>, st1))"

subsection \<open>Executor\<close>

definition executeSingleAttempt ::
  "Env \<Rightarrow> StepDefinition \<Rightarrow> jsvalue \<Rightarrow> ExecState \<Rightarrow> StepResult \<times> ExecState" where
  "executeSingleAttempt env stp input st =
     (let k = calls st + 1;
          st1 = await env (AwaitBody k) (log (BodyCall k input) (st\<lparr>calls := k\<rparr>))
      in case body env k input (ctx st) of
           Inr out \<Rightarrow>
             (\<lparr>stepId = id' stp, status = SUCCESS, output' = Some out, error = None,
               retryCount = None\<rparr>, st1)
         | Inl (ThrownError e) \<Rightarrow>
             (\<lparr>stepId = id' stp, status = FAILED, output' = None,
               error = Some (StepExecutionError (message e) (id' stp) (Some e)),
               retryCount = None\<rparr>, st1)
         | Inl (ThrownOther s) \<Rightarrow>
             (\<lparr>stepId = id' stp, status = FAILED, output' = None,
               error = Some (StepExecutionError s (id' stp) None),
               retryCount = None\<rparr>, st1))"

text \<open>
  \<open>RetryStrategy.waitForRetry\<close>: a timer of \<open>getNextRetryInterval()\<close> milliseconds. The
  executor is suspended meanwhile; the sleep is the one numbered by the retry it precedes.
\<close>

definition waitForRetry :: "Env \<Rightarrow> RetryStrategy \<Rightarrow> ExecState \<Rightarrow> ExecState" where
  "waitForRetry env rs st =
     (let interval = getNextRetryInterval rs
      in await env (AwaitSleep (currentRetryCount rs + 1)) (log (Sleep interval) st))"

text \<open>The \<open>while (retryStrategy.canRetry())\<close> loop of \<open>executeWithRetry\<close>.\<close>

function retry_loop ::
  "Env \<Rightarrow> Executor \<Rightarrow> StepDefinition \<Rightarrow> jsvalue \<Rightarrow> RetryStrategy \<Rightarrow> jserror option \<Rightarrow> ExecState
     \<Rightarrow> StepResult \<times> ExecState" where
  "retry_loop env ex stp input rs lastError st =
     (if canRetry rs then
        if id' stp \<in> cancelledSteps st then
          (\<lparr>stepId = id' stp, status = FAILED, output' = None,
            error = Some (Error msg_cancelled), retryCount = Some (getRetryCount rs)\<rparr>, st)
        else
          let st1 = waitForRetry env rs st;
              rs1 = recordRetry rs;
              st2 = emitEvent ex STEP_RETRY (id' stp)
                      (VObject [(''attempt'', VNum (real (getRetryCount rs1 + 1))),
                                (''maxRetries'', VNum (real (getMaxRetries rs1))),
                                (''lastError'', opt_message lastError)]) st1
          in case executeSingleAttempt env stp input st2 of
               (result, st3) \<Rightarrow>
                 if status result = SUCCESS then
                   (result\<lparr>retryCount := Some (getRetryCount rs1)\<rparr>,
                    emitEvent ex STEP_COMPLETE (id' stp)
                      (VObject [(''output'', opt_value (output' result)),
                                (''retryCount'', VNum (real (getRetryCount rs1)))]) st3)
                 else retry_loop env ex stp input rs1 (error result) st3
      else
        (\<lparr>stepId = id' stp, status = FAILED, output' = None, error = lastError,
          retryCount = Some (getRetryCount rs)\<rparr>,
         emitEvent ex STEP_FAILED (id' stp)
           (VObject [(''error'', opt_message lastError),
                     (''retryCount'', VNum (real (getRetryCount rs))),
                     (''maxRetries'', VNum (real (getMaxRetries rs)))]) st))"
  by pat_completeness auto
termination
  by (relation "measure (\<lambda>(env, ex, stp, input, rs, lastError, st).
                   maxRetries (policy rs) - currentRetryCount rs)")
     (auto simp: canRetry_def recordRetry_def)

declare retry_loop.simps [simp del]

definition executeWithRetry ::
  "Env \<Rightarrow> Executor \<Rightarrow> StepDefinition \<Rightarrow> jsvalue \<Rightarrow> RetryPolicy option \<Rightarrow> ExecState
     \<Rightarrow> StepResult \<times> ExecState" where
  "executeWithRetry env ex stp input retryPolicy' st =
     (case retryPolicy' of
        None \<Rightarrow> executeSingleAttempt env stp input st
      | Some pol \<Rightarrow>
          let retryStrategy = new_RetryStrategy pol;
              st1 = emitEvent ex STEP_START (id' stp) (VObject [(''attempt'', VNum 1)]) st
          in case executeSingleAttempt env stp input st1 of
               (result, st2) \<Rightarrow>
                 if status result = SUCCESS then
                   (result,
                    emitEvent ex STEP_COMPLETE (id' stp)
                      (VObject [(''output'', opt_value (output' result))]) st2)
                 else retry_loop env ex stp input retryStrategy (error result) st2)"

definition commitOutput :: "string \<Rightarrow> jsvalue \<Rightarrow> ExecState \<Rightarrow> ExecState" where
  "commitOutput sid v st = log (SetStepOutput sid v) (st\<lparr>ctx := setStepOutput (ctx st) sid v\<rparr>)"

text \<open>
  \<open>Executor.executeStep\<close>. The result is \<open>Inl\<close> when the promise is rejected, which only an
  exception of a callback skip condition causes.
\<close>

definition run_step ::
  "Env \<Rightarrow> Executor \<Rightarrow> StepDefinition \<Rightarrow> jsvalue \<Rightarrow> ExecState \<Rightarrow> StepResult \<times> ExecState" where
  "run_step env ex stp input st =
     (case executeBeforeHooks env (hookManager ex) (id' stp) input (hooks stp) st of
        (beforeResult, st1) \<Rightarrow>
          if \<not> success beforeResult then
            (\<lparr>stepId = id' stp, status = FAILED, output' = None,
              error = hook_error beforeResult, retryCount = None\<rparr>,
             emitEvent ex STEP_FAILED (id' stp)
               (VObject [(''error'', opt_message (hook_error beforeResult)),
                         (''phase'', VStr ''beforeHook'')]) st1)
          else
            let actualInput = opt_value (modifiedInput beforeResult)
            in case executeWithRetry env ex stp actualInput (retryPolicy stp) st1 of
                 (result, st2) \<Rightarrow>
                   if status result = SUCCESS then
                     (case executeAfterHooks env (hookManager ex) (id' stp) actualInput
                             (opt_value (output' result)) (hooks stp) st2 of
                        (afterResult, st3) \<Rightarrow>
                          (result, commitOutput (id' stp) (opt_value (output' result)) st3))
                   else (result, st2))"

definition skip_step ::
  "Executor \<Rightarrow> StepDefinition \<Rightarrow> SkipPolicy \<Rightarrow> ExecState \<Rightarrow> StepResult \<times> ExecState" where
  "skip_step ex stp pol st =
     (let st1 = emitEvent ex STEP_SKIP (id' stp) (VObject [(''reason'', VStr ''skip condition met'')]) st;
          defaultOutput' = getDefaultOutput pol
      in (\<lparr>stepId = id' stp, status = SKIPPED, output' = Some defaultOutput', error = None,
           retryCount = None\<rparr>,
          commitOutput (id' stp) defaultOutput' st1))"

definition executeStep ::
  "Env \<Rightarrow> Executor \<Rightarrow> StepDefinition \<Rightarrow> jsvalue \<Rightarrow> ExecState
     \<Rightarrow> thrown + StepResult \<times> ExecState" where
  "executeStep env ex stp input st =
     (if id' stp \<in> cancelledSteps st then
        Inr (\<lparr>stepId = id' stp, status = FAILED, output' = None,
              error = Some (Error msg_cancelled), retryCount = None\<rparr>, st)
      else
        case skipPolicy stp of
          None \<Rightarrow> Inr (run_step env ex stp input st)
        | Some pol \<Rightarrow>
            (case shouldSkip pol (ctx st) of
               Inl t \<Rightarrow> Inl t
             | Inr True \<Rightarrow> Inr (skip_step ex stp pol st)
             | Inr False \<Rightarrow> Inr (run_step env ex stp input st)))"


subsection \<open>Notions used to state the executor's properties\<close>

fun is_BodyCall :: "action \<Rightarrow> bool" where
  "is_BodyCall (BodyCall k i) = True"
| "is_BodyCall a = False"

fun is_Emit :: "action \<Rightarrow> bool" where
  "is_Emit (Emit e) = True"
| "is_Emit a = False"

fun is_AfterHookCall :: "action \<Rightarrow> bool" where
  "is_AfterHookCall (AfterHookCall h) = True"
| "is_AfterHookCall a = False"

fun is_SetStepOutput :: "action \<Rightarrow> bool" where
  "is_SetStepOutput (SetStepOutput s v) = True"
| "is_SetStepOutput a = False"

text \<open>The number of invocations of the step body in a trace.\<close>

definition body_calls :: "action list \<Rightarrow> nat" where
  "body_calls tr = length (filter is_BodyCall tr)"

text \<open>The body fails on every attempt, whatever it is given.\<close>

definition always_fails :: "Env \<Rightarrow> bool" where
  "always_fails env = (\<forall>k i c. isl (body env k i c))"

text \<open>No other task ever puts the step into the cancellation set.\<close>

definition never_cancelled :: "Env \<Rightarrow> string \<Rightarrow> bool" where
  "never_cancelled env sid = (\<forall>p S. sid \<notin> S \<longrightarrow> sid \<notin> meanwhile env p S)"





text \<open>An action that is neither an after-hook call nor a write to the context.\<close>

definition quiet :: "action \<Rightarrow> bool" where
  "quiet a = (\<not> is_AfterHookCall a \<and> \<not> is_SetStepOutput a)"

subsection \<open>Concrete executions\<close>

definition ex0 :: Executor where
  "ex0 = \<lparr>hookManager = \<lparr>globalBeforeHooks = [], globalAfterHooks = []\<rparr>,
          ex_workflowId = ''wf'', ex_instanceId = ''inst''\<rparr>"

definition st0 :: ExecState where
  "st0 = \<lparr>cancelledSteps = {}, ctx = \<lparr>stepOutputs = Map.empty, globals = Map.empty\<rparr>,
          trace = [], calls = 0\<rparr>"

definition pol_backoff :: "nat \<Rightarrow> RetryPolicy" where
  "pol_backoff n = \<lparr>maxRetries = n, retryInterval = 10, exponentialBackoff = Some True,
                    backoffMultiplier = None\<rparr>"

definition step_with :: "RetryPolicy option \<Rightarrow> StepDefinition" where
  "step_with rp = \<lparr>id' = ''s1'', name' = ''step one'', type' = ''task'', dependencies = None,
                   retryPolicy = rp, skipPolicy = None, hooks = None\<rparr>"

text \<open>A body that always throws, one that always returns, and one that fails once.\<close>

definition env_fail :: Env where
  "env_fail = \<lparr>body = (\<lambda>k i c. Inl (ThrownError (Error ''bad''))), meanwhile = (\<lambda>p S. S)\<rparr>"

definition env_ok :: Env where
  "env_ok = \<lparr>body = (\<lambda>k i c. Inr (VStr ''done'')), meanwhile = (\<lambda>p S. S)\<rparr>"

text \<open>
  The body fails on its first call and returns on the second; \<open>cancelStep(''s1'')\<close> is
  called while the executor sleeps before the first retry.
\<close>

definition env_cancel_in_sleep :: Env where
  "env_cancel_in_sleep =
     \<lparr>body = (\<lambda>k i c. if k = 1 then Inl (ThrownError (Error ''bad'')) else Inr (VStr ''done'')),
      meanwhile = (\<lambda>p S. if p = AwaitSleep 1 then insert ''s1'' S else S)\<rparr>"





section \<open>Tool invoker\<close>

subsection \<open>Schema validator\<close>















record SchemaValidationResult =
  valid :: bool
  errors :: "string list"







subsection \<open>ToolInvoker\<close>

























subsection \<open>A registered tool with an input schema\<close>








section \<open>Wait manager\<close>

datatype TimeoutStrategy = ERROR | DEFAULT | IGNORE


record TimeoutConfig =
  cfg_timeout :: real
  strategy :: TimeoutStrategy
  defaultValue :: "jsvalue option"

datatype WaitType = UI | TOOL | SIGNAL

fun wait_type_name :: "WaitType \<Rightarrow> string" where
  "wait_type_name UI = ''ui''"
| "wait_type_name TOOL = ''tool''"
| "wait_type_name SIGNAL = ''signal''"

record WaitingInfo =
  wi_type :: WaitType
  targetId :: string
  startTime :: real
  wi_timeout :: "real option"
  wi_data :: "jsvalue option"

text \<open>
  The promise handed out by \<open>startWait\<close>: pending, fulfilled or rejected. Settling a
  promise that is already settled does nothing.
\<close>

datatype promise_state = PendingP | Fulfilled jsvalue | Rejected jserror

text \<open>
  A \<open>WaitItem\<close> is a mutable object that the map, the timer callbacks and the promise
  callbacks all refer to, so wait items live in a store and are referred to by address.
  The three callbacks of the source are closures over the item, the step id and the
  promise; they are the functions \<open>onResume\<close>, \<open>onCancel\<close> and \<open>handleTimeout\<close> below.
\<close>

record WaitItem =
  wi_stepId :: string
  waitingInfo :: WaitingInfo
  timeoutConfig :: "TimeoutConfig option"
  timeoutId :: "nat option"
  promise :: promise_state

text \<open>
  \<open>StepState\<close>. Its \<open>waitingFor\<close> is the very \<open>WaitingInfo\<close> object of a wait item and is
  kept as the address of that item.
\<close>

record StepState =
  ss_stepId :: string
  ss_status :: StepStatus
  ss_retryCount :: nat
  ss_startTime :: "real option"
  waitingFor :: "nat option"

text \<open>
  An armed timer and what its callback closes over: the step id, the wait item, and which
  of the three \<open>setTimeout\<close> calls of the source armed it (the one of \<open>extendTimeout\<close>
  keeps the new timeout it computed).
\<close>

datatype timer_kind = InitialTimer | RestartedTimer | ExtendedTimer real

record timer_cb =
  cb_stepId :: string
  cb_item :: nat
  cb_kind :: timer_kind

record WaitManager =
  wm_workflowId :: string
  wm_instanceId :: string

record WaitState =
  waitingItems :: "(string, nat) jsmap"
  stepStates :: "(string, StepState) jsmap"
  items :: "nat \<rightharpoonup> WaitItem"
  timers :: "nat \<rightharpoonup> timer_cb"
  next_item :: nat
  next_timer :: nat
  wait_events :: "WorkflowEvent list"

definition emitWaitEvent ::
  "WaitManager \<Rightarrow> EventType \<Rightarrow> string \<Rightarrow> jsvalue \<Rightarrow> WaitState \<Rightarrow> WaitState" where
  "emitWaitEvent wm t sid pl st =
     st\<lparr>wait_events := wait_events st @
          [createWorkflowEvent t (wm_workflowId wm) (wm_instanceId wm) pl (Some sid)]\<rparr>"

text \<open>\<open>clearTimeout\<close> disarms a timer; on a handle that is not armed it does nothing.\<close>

definition clearTimeout :: "nat \<Rightarrow> WaitState \<Rightarrow> WaitState" where
  "clearTimeout t st = st\<lparr>timers := (timers st)(t := None)\<rparr>"

text \<open>\<open>setTimeout\<close> arms a timer under a fresh handle.\<close>

definition setTimeout :: "timer_cb \<Rightarrow> WaitState \<Rightarrow> nat \<times> WaitState" where
  "setTimeout cb st =
     (next_timer st, st\<lparr>timers := (timers st)(next_timer st \<mapsto> cb), next_timer := next_timer st + 1\<rparr>)"

definition settle :: "nat \<Rightarrow> promise_state \<Rightarrow> WaitState \<Rightarrow> WaitState" where
  "settle i p st =
     (case items st i of
        None \<Rightarrow> st
      | Some item \<Rightarrow>
          if promise item = PendingP then st\<lparr>items := (items st)(i \<mapsto> item\<lparr>promise := p\<rparr>)\<rparr> else st)"

text \<open>
  \<open>clearWaitItem\<close>. A timer handle is always truthy, so \<open>if (waitItem.timeoutId)\<close> tests
  that one was stored. A reference always has its object; the \<open>None\<close> branches of store
  lookups stand for the dangling reference that cannot exist.
\<close>

definition clearWaitItem :: "string \<Rightarrow> WaitState \<Rightarrow> WaitState" where
  "clearWaitItem sid st =
     (case Map_get (waitingItems st) sid of
        None \<Rightarrow> st
      | Some i \<Rightarrow>
          let st1 = (case items st i of
                       None \<Rightarrow> st
                     | Some waitItem \<Rightarrow>
                         (case timeoutId waitItem of None \<Rightarrow> st | Some t \<Rightarrow> clearTimeout t st));
              st2 = st1\<lparr>waitingItems := Map_delete (waitingItems st1) sid\<rparr>
          in case Map_get (stepStates st2) sid of
               None \<Rightarrow> st2
             | Some currentState \<Rightarrow>
                 st2\<lparr>stepStates := Map_set (stepStates st2) sid (currentState\<lparr>waitingFor := None\<rparr>)\<rparr>)"

definition info_of :: "WaitState \<Rightarrow> nat \<Rightarrow> WaitingInfo option" where
  "info_of st i = map_option waitingInfo (items st i)"


definition config_of :: "WaitState \<Rightarrow> nat \<Rightarrow> TimeoutConfig option" where
  "config_of st i = (case items st i of None \<Rightarrow> None | Some waitItem \<Rightarrow> timeoutConfig waitItem)"

text \<open>\<open>restartWaitTimer\<close>, for the \<open>IGNORE\<close> strategy: the item goes back into the map.\<close>

definition restartWaitTimer :: "string \<Rightarrow> nat \<Rightarrow> WaitState \<Rightarrow> WaitState" where
  "restartWaitTimer sid i st =
     (case config_of st i of
        None \<Rightarrow> st
      | Some cfg \<Rightarrow>
          if cfg_timeout cfg \<le> 0 then st
          else
            let st1 = st\<lparr>waitingItems := Map_set (waitingItems st) sid i\<rparr>
            in case setTimeout \<lparr>cb_stepId = sid, cb_item = i, cb_kind = RestartedTimer\<rparr> st1 of
                 (t, st2) \<Rightarrow>
                   (case items st2 i of
                      None \<Rightarrow> st2
                    | Some waitItem \<Rightarrow>
                        st2\<lparr>items := (items st2)(i \<mapsto> waitItem\<lparr>timeoutId := Some t\<rparr>)\<rparr>))"

definition msg_wait_timeout :: "string \<Rightarrow> string" where
  "msg_wait_timeout sid = ''step '' @ sid @ '' wait timed out''"

text \<open>
  \<open>handleTimeout\<close>. With the \<open>ERROR\<close> strategy the source reads \<open>timeoutConfig!.timeout\<close>;
  a timer is only ever armed for an item that has a configuration.
\<close>

definition handleTimeout :: "string \<Rightarrow> nat \<Rightarrow> WaitState \<Rightarrow> WaitState" where
  "handleTimeout sid i st =
     (let cfg = config_of st i;
          strategy' = (case cfg of None \<Rightarrow> ERROR | Some c \<Rightarrow> strategy c);
          st1 = clearWaitItem sid st
      in case strategy' of
           ERROR \<Rightarrow>
             settle i (Rejected (TimeoutError (msg_wait_timeout sid) sid
                                   (case cfg of None \<Rightarrow> 0 | Some c \<Rightarrow> cfg_timeout c))) st1
         | DEFAULT \<Rightarrow>
             settle i (Fulfilled (case cfg of None \<Rightarrow> VUndefined | Some c \<Rightarrow> opt_value (defaultValue c))) st1
         | IGNORE \<Rightarrow> restartWaitTimer sid i st1)"





definition resume_payload :: "WaitState \<Rightarrow> real \<Rightarrow> nat \<Rightarrow> (string \<times> jsvalue) list" where
  "resume_payload st now i =
     (let info = info_of st i
      in [(''type'', (case info of None \<Rightarrow> VUndefined | Some w \<Rightarrow> VStr (wait_type_name (wi_type w)))),
          (''targetId'', (case info of None \<Rightarrow> VUndefined | Some w \<Rightarrow> VStr (targetId w))),
          (''elapsedTime'', (case info of None \<Rightarrow> VUndefined | Some w \<Rightarrow> VNum (now - startTime w)))])"


text \<open>\<open>cancelWait\<close>: the event first, then the item's \<open>onCancel\<close>.\<close>

definition cancelWait ::
  "WaitManager \<Rightarrow> real \<Rightarrow> string \<Rightarrow> string \<Rightarrow> WaitState \<Rightarrow> bool \<times> WaitState" where
  "cancelWait wm now sid reason st =
     (case Map_get (waitingItems st) sid of
        None \<Rightarrow> (False, st)
      | Some i \<Rightarrow>
          let st1 = emitWaitEvent wm WAIT_CANCEL sid
                      (VObject (resume_payload st now i @ [(''reason'', VStr reason)])) st;
              st2 = clearWaitItem sid st1;
              st3 = settle i (Rejected (Error reason)) st2
          in (True, st3))"

fun cancelAll_loop :: "WaitManager \<Rightarrow> real \<Rightarrow> string list \<Rightarrow> string \<Rightarrow> WaitState \<Rightarrow> WaitState" where
  "cancelAll_loop wm now [] reason st = st"
| "cancelAll_loop wm now (sid # sids) reason st =
     cancelAll_loop wm now sids reason (snd (cancelWait wm now sid reason st))"

definition cancelAllWaits :: "WaitManager \<Rightarrow> real \<Rightarrow> string \<Rightarrow> WaitState \<Rightarrow> WaitState" where
  "cancelAllWaits wm now reason st = cancelAll_loop wm now (Map_keys (waitingItems st)) reason st"

text \<open>
  \<open>extendTimeout\<close>. The source writes the new timeout into the item's configuration and
  waiting info; each item owns its copies here.
\<close>

definition extendTimeout ::
  "WaitManager \<Rightarrow> real \<Rightarrow> string \<Rightarrow> real \<Rightarrow> WaitState \<Rightarrow> bool \<times> WaitState" where
  "extendTimeout wm now sid additionalTime st =
     (case Map_get (waitingItems st) sid of
        None \<Rightarrow> (False, st)
      | Some i \<Rightarrow>
          (case items st i of
             None \<Rightarrow> (False, st)
           | Some waitItem \<Rightarrow>
               (case (timeoutConfig waitItem, timeoutId waitItem) of
                  (Some cfg, Some t) \<Rightarrow>
                    let st1 = clearTimeout t st;
                        elapsed = now - startTime (waitingInfo waitItem);
                        newTimeout = cfg_timeout cfg + additionalTime;
                        remainingTime = newTimeout - elapsed
                    in if remainingTime \<le> 0 then (True, handleTimeout sid i st1)
                       else
                         (case setTimeout \<lparr>cb_stepId = sid, cb_item = i,
                                           cb_kind = ExtendedTimer newTimeout\<rparr> st1 of
                            (t', st2) \<Rightarrow>
                              (True,
                               st2\<lparr>items := (items st2)(i \<mapsto>
                                  waitItem\<lparr>timeoutConfig := Some (cfg\<lparr>cfg_timeout := newTimeout\<rparr>),
                                           waitingInfo := (waitingInfo waitItem)\<lparr>wi_timeout := Some newTimeout\<rparr>,
                                           timeoutId := Some t'\<rparr>)\<rparr>))
                | _ \<Rightarrow> (False, st))))"



subsection \<open>A wait manager with one wait under way\<close>





section \<open>Delivery on the event bus\<close>










section \<open>The ready frontier\<close>

lemma allDeps_iff:
  "list_all (\<lambda>depId. depId \<in> C) (case Map_get (edges dag) i of None \<Rightarrow> [] | Some ds \<Rightarrow> ds)
     \<longleftrightarrow> set (deps_of dag i) \<subseteq> C"
  by (simp add: deps_of_def list_all_iff subset_iff)

lemma getReadySteps_loop_eq:
  "getReadySteps_loop dag C ns ready = ready @ map (\<lambda>p. step (snd p)) (filter (ready_spec dag C) ns)"
proof (induction ns arbitrary: ready)
  case Nil
  show ?case by simp
next
  case (Cons p ns)
  obtain i node where p: "p = (i, node)" by (cases p)
  show ?case
    unfolding p getReadySteps_loop.simps Let_def allDeps_iff
    by (simp add: Cons.IH ready_spec_def)
qed

text \<open>
  Claim C7. \<open>getReadySteps(dag, C)\<close> returns, in node order, exactly the steps of the nodes
  that are not in \<open>C\<close> and all of whose dependencies are in \<open>C\<close>.
\<close>

theorem readySteps_exact:
  "getReadySteps dag C = map (\<lambda>p. step (snd p)) (filter (ready_spec dag C) (nodes dag))
   \<and> (\<forall>s. s \<in> set (getReadySteps dag C) \<longleftrightarrow>
          (\<exists>i node. (i, node) \<in> set (nodes dag) \<and> step node = s
              \<and> i \<notin> C \<and> (\<forall>d \<in> set (deps_of dag i). d \<in> C)))"
  unfolding getReadySteps_def getReadySteps_loop_eq
  by (auto simp: ready_spec_def image_iff subset_iff)

theorem readySteps_exact_witness:
  "map id' (getReadySteps (build diamond) {''A''}) = [''B'', ''C'']
   \<and> getReadySteps (build diamond) {''A''}
       = map (\<lambda>p. step (snd p)) (filter (ready_spec (build diamond) {''A''}) (nodes (build diamond)))"
proof -
  have "map id' (getReadySteps (build diamond) {''A''}) = [''B'', ''C'']"
    by code_simp
  moreover note conjunct1 [OF readySteps_exact [of "build diamond" "{''A''}"]]
  ultimately show ?thesis by (rule conjI)
qed


section \<open>Properties of the executor\<close>

lemma body_calls_simps [simp]:
  "body_calls [] = 0"
  "body_calls (tr @ tr') = body_calls tr + body_calls tr'"
  "body_calls (a # tr) = (if is_BodyCall a then 1 else 0) + body_calls tr"
  by (simp_all add: body_calls_def)

lemma esa_state:
  "snd (executeSingleAttempt env stp inp st) =
     await env (AwaitBody (calls st + 1)) (log (BodyCall (calls st + 1) inp) (st\<lparr>calls := calls st + 1\<rparr>))"
  by (simp add: executeSingleAttempt_def Let_def split: sum.splits thrown.splits)

lemma esa_status:
  "status (fst (executeSingleAttempt env stp inp st)) =
     (if isl (body env (calls st + 1) inp (ctx st)) then FAILED else SUCCESS)"
  by (simp add: executeSingleAttempt_def Let_def split: sum.splits thrown.splits)

lemma state_simps [simp]:
  "trace (await env p st) = trace st"
  "calls (await env p st) = calls st"
  "ctx (await env p st) = ctx st"
  "cancelledSteps (await env p st) = meanwhile env p (cancelledSteps st)"
  "trace (log a st) = trace st @ [a]"
  "calls (log a st) = calls st"
  "ctx (log a st) = ctx st"
  "cancelledSteps (log a st) = cancelledSteps st"
  "trace (emitEvent ex t sid pl st) = trace st @ [Emit (createWorkflowEvent t (ex_workflowId ex) (ex_instanceId ex) pl (Some sid))]"
  "calls (emitEvent ex t sid pl st) = calls st"
  "ctx (emitEvent ex t sid pl st) = ctx st"
  "cancelledSteps (emitEvent ex t sid pl st) = cancelledSteps st"
  by (simp_all add: await_def log_def emitEvent_def)

lemma waitForRetry_simps [simp]:
  "trace (waitForRetry env rs st) = trace st @ [Sleep (getNextRetryInterval rs)]"
  "calls (waitForRetry env rs st) = calls st"
  "ctx (waitForRetry env rs st) = ctx st"
  "cancelledSteps (waitForRetry env rs st) = meanwhile env (AwaitSleep (currentRetryCount rs + 1)) (cancelledSteps st)"
  by (simp_all add: waitForRetry_def Let_def)

lemma retry_loop_always_fails:
  shows "always_fails env \<Longrightarrow> never_cancelled env (id' stp) \<Longrightarrow>
         id' stp \<notin> cancelledSteps st \<Longrightarrow> currentRetryCount rs \<le> maxRetries (policy rs) \<Longrightarrow>
         retry_loop env ex stp inp rs le st = (res, st') \<Longrightarrow>
         status res = FAILED \<and> retryCount res = Some (maxRetries (policy rs))
         \<and> body_calls (trace st') = body_calls (trace st) + (maxRetries (policy rs) - currentRetryCount rs)
         \<and> calls st' = calls st + (maxRetries (policy rs) - currentRetryCount rs)"
proof (induction env ex stp inp rs le st rule: retry_loop.induct)
  case (1 env ex stp input rs lastError st)
  show ?case
  proof (cases "canRetry rs")
    case False
    with "1.prems" show ?thesis
      by (auto simp: retry_loop.simps[of env ex stp input rs] canRetry_def getRetryCount_def)
  next
    case True
    let ?st1 = "waitForRetry env rs st"
    let ?rs1 = "recordRetry rs"
    let ?st2 = "emitEvent ex STEP_RETRY (id' stp)
                      (VObject [(''attempt'', VNum (real (getRetryCount ?rs1 + 1))),
                                (''maxRetries'', VNum (real (getMaxRetries ?rs1))),
                                (''lastError'', opt_message lastError)]) ?st1"
    obtain result st3 where esa: "executeSingleAttempt env stp input ?st2 = (result, st3)"
      by (cases "executeSingleAttempt env stp input ?st2")
    have st3: "st3 = await env (AwaitBody (calls ?st2 + 1)) (log (BodyCall (calls ?st2 + 1) input) (?st2\<lparr>calls := calls ?st2 + 1\<rparr>))"
      using esa_state[of env stp input ?st2] esa by simp
    have fl: "status result = FAILED"
      using esa_status[of env stp input ?st2] esa "1.prems"(1) by (simp add: always_fails_def)
    have nc: "id' stp \<notin> cancelledSteps st3"
      using "1.prems"(2,3) unfolding st3 never_cancelled_def by simp
    have rl: "retry_loop env ex stp input ?rs1 (error result) st3 = (res, st')"
      using "1.prems"(5) True "1.prems"(3) esa fl
      by (simp add: retry_loop.simps[of env ex stp input rs] Let_def)
    have le: "currentRetryCount ?rs1 \<le> maxRetries (policy ?rs1)"
      using True by (simp add: canRetry_def recordRetry_def)
    have ih: "status res = FAILED \<and> retryCount res = Some (maxRetries (policy ?rs1))
         \<and> body_calls (trace st') = body_calls (trace st3) + (maxRetries (policy ?rs1) - currentRetryCount ?rs1)
         \<and> calls st' = calls st3 + (maxRetries (policy ?rs1) - currentRetryCount ?rs1)"
      using "1.IH"[OF True "1.prems"(3) refl refl refl esa[symmetric] _ "1.prems"(1,2) nc le rl] fl
      by simp
    show ?thesis using ih True unfolding st3
      by (auto simp: recordRetry_def canRetry_def)
  qed
qed








lemma retry_loop_complete:
  "retry_loop env ex stp inp rs le st = (res, st') \<Longrightarrow>
   (\<exists>new. trace st' = trace st @ new) \<and>
   (status res = SUCCESS \<longrightarrow>
      (\<exists>more. last (trace st') = Emit (createWorkflowEvent STEP_COMPLETE (ex_workflowId ex) (ex_instanceId ex)
                  (VObject ((''output'', opt_value (output' res)) # more)) (Some (id' stp)))))"
proof (induction env ex stp inp rs le st rule: retry_loop.induct)
  case (1 env ex stp input rs lastError st)
  show ?case
  proof (cases "canRetry rs \<and> id' stp \<notin> cancelledSteps st")
    case False
    with "1.prems" show ?thesis
      by (auto simp: retry_loop.simps[of env ex stp input rs] split: if_splits)
  next
    case True
    let ?st1 = "waitForRetry env rs st"
    let ?rs1 = "recordRetry rs"
    let ?st2 = "emitEvent ex STEP_RETRY (id' stp)
                      (VObject [(''attempt'', VNum (real (getRetryCount ?rs1 + 1))),
                                (''maxRetries'', VNum (real (getMaxRetries ?rs1))),
                                (''lastError'', opt_message lastError)]) ?st1"
    obtain result st3 where esa: "executeSingleAttempt env stp input ?st2 = (result, st3)"
      by (cases "executeSingleAttempt env stp input ?st2")
    have st3: "st3 = await env (AwaitBody (calls ?st2 + 1)) (log (BodyCall (calls ?st2 + 1) input) (?st2\<lparr>calls := calls ?st2 + 1\<rparr>))"
      using esa_state[of env stp input ?st2] esa by simp
    have tr3: "\<exists>new. trace st3 = trace st @ new"
      unfolding st3 by simp
    show ?thesis
    proof (cases "status result = SUCCESS")
      case succ: True
      have "res = result\<lparr>retryCount := Some (getRetryCount ?rs1)\<rparr>"
           "st' = emitEvent ex STEP_COMPLETE (id' stp)
                      (VObject [(''output'', opt_value (output' result)),
                                (''retryCount'', VNum (real (getRetryCount ?rs1)))]) st3"
        using "1.prems" True esa succ
        by (simp_all add: retry_loop.simps[of env ex stp input rs] Let_def)
      then show ?thesis using tr3 by auto
    next
      case fl: False
      have rl: "retry_loop env ex stp input ?rs1 (error result) st3 = (res, st')"
        using "1.prems" True esa fl
        by (simp add: retry_loop.simps[of env ex stp input rs] Let_def)
      from "1.IH"[OF conjunct1[OF True] conjunct2[OF True] refl refl refl esa[symmetric] fl rl] tr3
      show ?thesis by auto
    qed
  qed
qed

text \<open>
  Claim C2 (amended). With a retry policy, \<open>executeWithRetry\<close> emits \<open>StepStart\<close> with
  \<open>attempt = 1\<close> immediately before the first call of the body, and when it returns
  \<open>Success\<close> the last thing it did was to emit \<open>StepComplete\<close> with the output. Without
  a retry policy it calls the body once and emits no event.
\<close>

theorem step_events_by_policy:
  assumes "executeWithRetry env ex stp inp rp st = (res, st')"
  shows "case rp of
           Some pol \<Rightarrow>
             (\<exists>rest. trace st' = trace st @
                  Emit (createWorkflowEvent STEP_START (ex_workflowId ex) (ex_instanceId ex)
                          (VObject [(''attempt'', VNum 1)]) (Some (id' stp)))
                  # BodyCall (calls st + 1) inp # rest)
             \<and> (status res = SUCCESS \<longrightarrow>
                  (\<exists>more. last (trace st') =
                     Emit (createWorkflowEvent STEP_COMPLETE (ex_workflowId ex) (ex_instanceId ex)
                            (VObject ((''output'', opt_value (output' res)) # more)) (Some (id' stp)))))
         | None \<Rightarrow> trace st' = trace st @ [BodyCall (calls st + 1) inp]"
proof (cases rp)
  case None
  with assms esa_state[of env stp inp st] show ?thesis
    by (simp add: executeWithRetry_def)
next
  case (Some pol)
  let ?st1 = "emitEvent ex STEP_START (id' stp) (VObject [(''attempt'', VNum 1)]) st"
  obtain result st2 where esa: "executeSingleAttempt env stp inp ?st1 = (result, st2)"
    by (cases "executeSingleAttempt env stp inp ?st1")
  have st2: "trace st2 = trace st @
                  [Emit (createWorkflowEvent STEP_START (ex_workflowId ex) (ex_instanceId ex)
                          (VObject [(''attempt'', VNum 1)]) (Some (id' stp))),
                   BodyCall (calls st + 1) inp]"
    using esa_state[of env stp inp ?st1] esa by simp
  show ?thesis
  proof (cases "status result = SUCCESS")
    case True
    with assms Some esa have "res = result"
      "st' = emitEvent ex STEP_COMPLETE (id' stp) (VObject [(''output'', opt_value (output' result))]) st2"
      by (auto simp add: executeWithRetry_def Let_def)
    with Some st2 True show ?thesis by auto
  next
    case False
    with assms Some esa
    have rl: "retry_loop env ex stp inp (new_RetryStrategy pol) (error result) st2 = (res, st')"
      by (simp add: executeWithRetry_def Let_def)
    from retry_loop_complete[OF rl] st2 Some show ?thesis by auto
  qed
qed

theorem step_events_by_policy_witness:
  "fst (executeWithRetry env_ok ex0 (step_with (Some (pol_backoff 2))) VNull (Some (pol_backoff 2)) st0)
     = \<lparr>stepId = ''s1'', status = SUCCESS, output' = Some (VStr ''done''), error = None, retryCount = None\<rparr>
   \<and> trace (snd (executeWithRetry env_ok ex0 (step_with (Some (pol_backoff 2))) VNull (Some (pol_backoff 2)) st0))
     = [Emit (createWorkflowEvent STEP_START ''wf'' ''inst'' (VObject [(''attempt'', VNum 1)]) (Some ''s1'')),
        BodyCall 1 VNull,
        Emit (createWorkflowEvent STEP_COMPLETE ''wf'' ''inst'' (VObject [(''output'', VStr ''done'')]) (Some ''s1''))]"
  using step_events_by_policy [of env_ok ex0 "step_with (Some (pol_backoff 2))" VNull "Some (pol_backoff 2)" st0,
          OF prod.collapse [symmetric]]
  by (simp add: executeWithRetry_def executeSingleAttempt_def env_ok_def ex0_def st0_def step_with_def
        pol_backoff_def new_RetryStrategy_def Let_def opt_value_def)

text \<open>
  Claim C2 as stated fails: a step without a retry policy whose body succeeds runs through
  \<open>executeStep\<close> with no \<open>StepStart\<close> and no \<open>StepComplete\<close> event.
\<close>

theorem step_without_policy_counterexample:
  "executeStep env_ok ex0 (step_with None) VNull st0 =
     Inr (\<lparr>stepId = ''s1'', status = SUCCESS, output' = Some (VStr ''done''), error = None, retryCount = None\<rparr>,
          st0\<lparr>ctx := \<lparr>stepOutputs = [''s1'' \<mapsto> VStr ''done''], globals = Map.empty\<rparr>,
               trace := [BodyCall 1 VNull, SetStepOutput ''s1'' (VStr ''done'')],
               calls := 1\<rparr>)"
  by (simp add: executeStep_def run_step_def executeBeforeHooks_def executeAfterHooks_def
        executeWithRetry_def executeSingleAttempt_def commitOutput_def setStepOutput_def
        env_ok_def ex0_def st0_def step_with_def Let_def opt_value_def await_def log_def)


text \<open>
  Claim C4. With \<open>maxRetries = N\<close>, a body that fails on every attempt and a step that is
  never cancelled, \<open>executeWithRetry\<close> invokes the body \<open>N + 1\<close> times (so at most
  \<open>N + 1\<close> times) and returns a \<open>Failed\<close> result with \<open>retryCount = N\<close>.
\<close>

theorem retry_exhaustion:
  assumes "always_fails env" and "never_cancelled env (id' stp)"
    and "id' stp \<notin> cancelledSteps st"
    and "executeWithRetry env ex stp inp (Some pol) st = (res, st')"
  shows "body_calls (trace st') - body_calls (trace st) \<le> maxRetries pol + 1
         \<and> body_calls (trace st') = body_calls (trace st) + (maxRetries pol + 1)
         \<and> status res = FAILED \<and> retryCount res = Some (maxRetries pol)"
proof -
  let ?st1 = "emitEvent ex STEP_START (id' stp) (VObject [(''attempt'', VNum 1)]) st"
  obtain result st2 where esa: "executeSingleAttempt env stp inp ?st1 = (result, st2)"
    by (cases "executeSingleAttempt env stp inp ?st1")
  have st2: "st2 = await env (AwaitBody (calls ?st1 + 1))
                     (log (BodyCall (calls ?st1 + 1) inp) (?st1\<lparr>calls := calls ?st1 + 1\<rparr>))"
    using esa_state[of env stp inp ?st1] esa by simp
  have fl: "status result = FAILED"
    using esa_status[of env stp inp ?st1] esa assms(1) by (simp add: always_fails_def)
  have nc: "id' stp \<notin> cancelledSteps st2"
    using assms(2,3) unfolding st2 never_cancelled_def by simp
  have rl: "retry_loop env ex stp inp (new_RetryStrategy pol) (error result) st2 = (res, st')"
    using assms(4) esa fl by (simp add: executeWithRetry_def Let_def)
  have "status res = FAILED \<and> retryCount res = Some (maxRetries (policy (new_RetryStrategy pol)))
         \<and> body_calls (trace st') = body_calls (trace st2)
              + (maxRetries (policy (new_RetryStrategy pol)) - currentRetryCount (new_RetryStrategy pol))
         \<and> calls st' = calls st2
              + (maxRetries (policy (new_RetryStrategy pol)) - currentRetryCount (new_RetryStrategy pol))"
    by (rule retry_loop_always_fails[OF assms(1,2) nc _ rl]) (simp add: new_RetryStrategy_def)
  then show ?thesis
    unfolding st2 by (simp add: new_RetryStrategy_def)
qed

lemma env_fail_always: "always_fails env_fail"
  by (simp add: always_fails_def env_fail_def)

lemma env_fail_never: "never_cancelled env_fail sid"
  by (simp add: never_cancelled_def env_fail_def)

theorem retry_exhaustion_witness:
  "always_fails env_fail \<and> never_cancelled env_fail (id' (step_with (Some (pol_backoff 2))))
   \<and> id' (step_with (Some (pol_backoff 2))) \<notin> cancelledSteps st0
   \<and> body_calls (trace (snd (executeWithRetry env_fail ex0 (step_with (Some (pol_backoff 2))) VNull
                                (Some (pol_backoff 2)) st0))) = 3
   \<and> retryCount (fst (executeWithRetry env_fail ex0 (step_with (Some (pol_backoff 2))) VNull
                                (Some (pol_backoff 2)) st0)) = Some 2"
proof -
  have c: "id' (step_with (Some (pol_backoff 2))) \<notin> cancelledSteps st0"
    by (simp add: st0_def)
  from retry_exhaustion [OF env_fail_always env_fail_never c prod.collapse [symmetric],
         of ex0 VNull "pol_backoff 2"]
  show ?thesis using c
    by (simp add: env_fail_always env_fail_never pol_backoff_def st0_def)
qed




text \<open>
  Claim C3 at a concrete execution. The retry loop tests the cancellation set before it
  sleeps and not after: with \<open>maxRetries = 1\<close>, a body that fails once and a
  \<open>cancelStep\<close> arriving during the sleep, the body is invoked a second time after the
  sleep and the step ends as \<open>Success\<close>, although the step is in the cancellation set.
\<close>

theorem cancel_during_sleep_evaluated:
  "(case executeStep env_cancel_in_sleep ex0 (step_with (Some (pol_backoff 1))) VNull st0 of
      Inl t \<Rightarrow> False
    | Inr (res, st) \<Rightarrow>
        status res = SUCCESS \<and> error res = None \<and> retryCount res = Some 1
        \<and> ''s1'' \<in> cancelledSteps st
        \<and> filter (\<lambda>a. \<not> is_Emit a) (trace st)
            = [BodyCall 1 VNull, Sleep 10, BodyCall 2 VNull, SetStepOutput ''s1'' (VStr ''done'')])"
  by (simp add: executeStep_def run_step_def executeBeforeHooks_def executeAfterHooks_def
        commitOutput_def setStepOutput_def opt_value_def
        executeWithRetry_def executeSingleAttempt_def retry_loop.simps env_cancel_in_sleep_def
        ex0_def st0_def step_with_def pol_backoff_def new_RetryStrategy_def canRetry_def
        recordRetry_def getRetryCount_def getMaxRetries_def getNextRetryInterval_def
        waitForRetry_def emitEvent_def await_def log_def Let_def)

lemma quiet_simps [simp]:
  "quiet (Emit e)" "quiet (BodyCall k v)" "quiet (Sleep r)" "quiet (BeforeHookCall h)"
  "\<not> quiet (AfterHookCall h)" "\<not> quiet (SetStepOutput s v)"
  by (simp_all add: quiet_def)









section \<open>Schema validation in the tool invoker\<close>
















section \<open>Resolution of waits\<close>

lemma Map_has_delete [simp]: "\<not> Map_has (Map_delete m k) k"
  by (induction m) (auto simp: Map_has_def Map_delete_def)



lemma settle_frame [simp]:
  "waitingItems (settle i p st) = waitingItems st"
  "timers (settle i p st) = timers st"
  by (simp_all add: settle_def split: option.splits)


lemma emitWaitEvent_frame [simp]:
  "waitingItems (emitWaitEvent wm t sid pl st) = waitingItems st"
  "timers (emitWaitEvent wm t sid pl st) = timers st"
  "items (emitWaitEvent wm t sid pl st) = items st"
  "stepStates (emitWaitEvent wm t sid pl st) = stepStates st"
  by (simp_all add: emitWaitEvent_def)









end
